theory Spec2Isabelle
  imports Main
begin

section \<open>JavaScript values\<close>

text \<open>
  The protocol engine of \<^verbatim>\<open>src/mcp-protocol.js\<close> works on decoded JSON: the message it
  receives, the ids it echoes, the arguments and results of tool handlers and the envelopes it
  returns are plain JavaScript values. \<open>JUndefined\<close> and \<open>JNull\<close> are kept apart, since
  reading a property of either throws while an absent property reads as \<open>undefined\<close>.
  The engine never computes with a number, it only carries numbers through; \<open>JNum\<close> holds the
  integer-valued ones. An object is the list of its own properties in property order.
\<close>

datatype jsval =
    JUndefined
  | JNull
  | JBool bool
  | JNum int
  | JStr string
  | JArr "jsval list"
  | JObj "(string \<times> jsval) list"

text \<open>
  What can be thrown: the \<^verbatim>\<open>TypeError\<close> the runtime raises when a property \<open>k\<close> is read
  from (or destructured out of) \<open>undefined\<close> or \<open>null\<close>, the \<^verbatim>\<open>TypeError\<close> it raises when
  a value cannot be converted to a string, and whatever value a tool handler throws or rejects
  with.
\<close>

datatype exn =
    TypeError jsval string
  | TypeError_convert jsval
  | Thrown jsval

text \<open>
  The runtime services the engine calls but does not define: the text a template literal
  gives numbers, arrays and objects that convert, \<^verbatim>\<open>JSON.stringify(v, null, 2)\<close>, and the
  message texts the runtime gives the \<^verbatim>\<open>TypeError\<close> of a failed property read and of a
  failed conversion. They are parameters of the model. On the values of \<open>jsval\<close> (no \<^verbatim>\<open>BigInt\<close>, no cyclic
  reference) \<^verbatim>\<open>JSON.stringify\<close> does not throw; it returns \<open>undefined\<close> or a string.
\<close>

record platform =
  render :: "jsval \<Rightarrow> string"
  stringify :: "jsval \<Rightarrow> jsval"
  typeErrorMessage :: "jsval \<Rightarrow> string \<Rightarrow> string"
  convertErrorMessage :: "jsval \<Rightarrow> string"

definition nullish :: "jsval \<Rightarrow> bool" where
  "nullish v = (v = JUndefined \<or> v = JNull)"

text \<open>
  \<open>js_prop v k\<close> is \<^verbatim>\<open>v[k]\<close> for a \<open>v\<close> that is neither \<open>undefined\<close> nor \<open>null\<close>: an own
  property of an object, and \<open>undefined\<close> otherwise. The engine reads only the keys
  \<^verbatim>\<open>method\<close>, \<^verbatim>\<open>params\<close>, \<^verbatim>\<open>id\<close>, \<^verbatim>\<open>capabilities\<close>, \<^verbatim>\<open>name\<close>, \<^verbatim>\<open>arguments\<close> and
  \<^verbatim>\<open>message\<close>, none of which a primitive, an array or \<^verbatim>\<open>Object.prototype\<close> provides.
  \<open>getprop\<close> is the read as the runtime performs it, throwing on \<open>undefined\<close> and \<open>null\<close>.
\<close>

definition js_prop :: "jsval \<Rightarrow> string \<Rightarrow> jsval" where
  "js_prop v k =
     (case v of
        JObj kvs \<Rightarrow> (case map_of kvs k of Some x \<Rightarrow> x | None \<Rightarrow> JUndefined)
      | _ \<Rightarrow> JUndefined)"

definition getprop :: "jsval \<Rightarrow> string \<Rightarrow> exn + jsval" where
  "getprop v k = (if nullish v then Inl (TypeError v k) else Inr (js_prop v k))"

text \<open>
  The conversion \<^verbatim>\<open>`${v}`\<close> of a template literal throws on some values. An object is
  converted by the \<^verbatim>\<open>toString\<close> it finds, which is that of \<^verbatim>\<open>Object.prototype\<close> unless
  the object has an own property of that name. A value of \<open>jsval\<close> holds no function, so
  an own \<^verbatim>\<open>toString\<close> is not callable; \<^verbatim>\<open>valueOf\<close> yields no primitive either, and the
  conversion throws a \<^verbatim>\<open>TypeError\<close>. An array converts its elements other than
  \<open>undefined\<close> and \<open>null\<close> and joins them, so it throws when one of them does.
  \<open>to_string\<close> is \<open>Inl\<close> of the error then, and \<open>Inr\<close> of the text otherwise.
\<close>

fun convertible :: "jsval \<Rightarrow> bool" where
  "convertible (JObj kvs) = (map_of kvs ''toString'' = None)"
| "convertible (JArr xs) = list_all (\<lambda>x. nullish x \<or> convertible x) xs"
| "convertible v = True"

definition to_string :: "platform \<Rightarrow> jsval \<Rightarrow> exn + string" where
  "to_string P v =
     (if convertible v then
        Inr (case v of
               JStr s \<Rightarrow> s
             | JUndefined \<Rightarrow> ''undefined''
             | JNull \<Rightarrow> ''null''
             | JBool b \<Rightarrow> (if b then ''true'' else ''false'')
             | _ \<Rightarrow> render P v)
      else Inl (TypeError_convert v))"

text \<open>
  \<^verbatim>\<open>error.message\<close> in a \<^verbatim>\<open>catch\<close> block. A thrown \<open>undefined\<close> or \<open>null\<close> makes the
  read itself throw.
\<close>

fun error_message :: "platform \<Rightarrow> exn \<Rightarrow> exn + jsval" where
  "error_message P (TypeError v k) = Inr (JStr (typeErrorMessage P v k))"
| "error_message P (TypeError_convert v) = Inr (JStr (convertErrorMessage P v))"
| "error_message P (Thrown e) = getprop e ''message''"

subsection \<open>The Node.js runtime\<close>

text \<open>
  One instance of the parameters, used where the model is evaluated on concrete messages:
  the conversions as ECMAScript defines them on \<open>jsval\<close> and the messages V8 gives a failed
  property read and a failed conversion. Numbers print in decimal (as JavaScript prints integers below \<open>10^21\<close>),
  an array prints its elements joined by commas with \<open>undefined\<close> and \<open>null\<close> empty, an
  object prints as \<^verbatim>\<open>[object Object]\<close>. \<^verbatim>\<open>JSON.stringify\<close> with indent 2 leaves out object
  properties whose value is \<open>undefined\<close>, prints \<open>undefined\<close> array elements as \<^verbatim>\<open>null\<close>
  and returns \<open>undefined\<close> for \<open>undefined\<close> itself.
\<close>

fun dec_digits :: "nat \<Rightarrow> string" where
  "dec_digits n =
     (if n < 10 then [''0123456789'' ! n]
      else dec_digits (n div 10) @ [''0123456789'' ! (n mod 10)])"

definition Number_toString :: "int \<Rightarrow> string" where
  "Number_toString i =
     (if i < 0 then CHR ''-'' # dec_digits (nat (- i)) else dec_digits (nat i))"

fun join :: "string \<Rightarrow> string list \<Rightarrow> string" where
  "join sep [] = []"
| "join sep [x] = x"
| "join sep (x # y # ys) = x @ sep @ join sep (y # ys)"

fun ToString :: "jsval \<Rightarrow> string" where
  "ToString JUndefined = ''undefined''"
| "ToString JNull = ''null''"
| "ToString (JBool b) = (if b then ''true'' else ''false'')"
| "ToString (JNum i) = Number_toString i"
| "ToString (JStr s) = s"
| "ToString (JArr xs) = join '','' (map (\<lambda>x. if nullish x then [] else ToString x) xs)"
| "ToString (JObj kvs) = ''[object Object]''"

definition hex_digit :: "nat \<Rightarrow> char" where
  "hex_digit n = ''0123456789abcdef'' ! n"

definition quote_char :: "char \<Rightarrow> string" where
  "quote_char c =
     (if c = CHR 0x22 then [CHR 0x5C, CHR 0x22]
      else if c = CHR 0x5C then [CHR 0x5C, CHR 0x5C]
      else if c = CHR 0x08 then [CHR 0x5C, CHR ''b'']
      else if c = CHR 0x09 then [CHR 0x5C, CHR ''t'']
      else if c = CHR 0x0A then [CHR 0x5C, CHR ''n'']
      else if c = CHR 0x0C then [CHR 0x5C, CHR ''f'']
      else if c = CHR 0x0D then [CHR 0x5C, CHR ''r'']
      else if of_char c < (32 :: nat) then
        [CHR 0x5C, CHR ''u'', CHR ''0'', CHR ''0'',
         hex_digit (of_char c div 16), hex_digit (of_char c mod 16)]
      else [c])"

definition QuoteJSONString :: "string \<Rightarrow> string" where
  "QuoteJSONString s = CHR 0x22 # concat (map quote_char s) @ [CHR 0x22]"

fun SerializeJSONProperty :: "string \<Rightarrow> jsval \<Rightarrow> string option" where
  "SerializeJSONProperty ind JUndefined = None"
| "SerializeJSONProperty ind JNull = Some ''null''"
| "SerializeJSONProperty ind (JBool b) = Some (if b then ''true'' else ''false'')"
| "SerializeJSONProperty ind (JNum i) = Some (Number_toString i)"
| "SerializeJSONProperty ind (JStr s) = Some (QuoteJSONString s)"
| "SerializeJSONProperty ind (JArr xs) =
     Some (if xs = [] then ''[]''
           else ''['' @ [CHR 0x0A] @ (ind @ ''  '') @
                join ('','' @ [CHR 0x0A] @ (ind @ ''  ''))
                  (map (\<lambda>x. case SerializeJSONProperty (ind @ ''  '') x of
                               None \<Rightarrow> ''null''
                             | Some t \<Rightarrow> t) xs) @
                [CHR 0x0A] @ ind @ '']'')"
| "SerializeJSONProperty ind (JObj kvs) =
     (let partial =
            concat (map (\<lambda>kv. case SerializeJSONProperty (ind @ ''  '') (snd kv) of
                                 None \<Rightarrow> []
                               | Some t \<Rightarrow> [QuoteJSONString (fst kv) @ '': '' @ t]) kvs)
      in Some (if partial = [] then ''{}''
               else ''{'' @ [CHR 0x0A] @ (ind @ ''  '') @
                    join ('','' @ [CHR 0x0A] @ (ind @ ''  '')) partial @
                    [CHR 0x0A] @ ind @ ''}''))"

definition JSON_stringify :: "jsval \<Rightarrow> jsval" where
  "JSON_stringify v =
     (case SerializeJSONProperty [] v of None \<Rightarrow> JUndefined | Some t \<Rightarrow> JStr t)"

definition V8_read_error :: "jsval \<Rightarrow> string \<Rightarrow> string" where
  "V8_read_error v k =
     ''Cannot read properties of '' @ ToString v @ '' (reading '' @ [CHR 0x27] @ k @ [CHR 0x27] @ '')''"

definition node_platform :: platform where
  "node_platform =
     \<lparr>render = ToString, stringify = JSON_stringify, typeErrorMessage = V8_read_error,
      convertErrorMessage = (\<lambda>v. ''Cannot convert object to primitive value'')\<rparr>"

section \<open>The server object\<close>

text \<open>
  A tool handler is an asynchronous function of the arguments object. Its promise fulfils
  with a value (\<open>Inr\<close>) or rejects with a thrown value (\<open>Inl\<close>).
\<close>

type_synonym handler_fn = "jsval \<Rightarrow> jsval + jsval"

record tool =
  name :: string
  description :: jsval
  inputSchema :: jsval
  handler :: handler_fn

text \<open>
  \<^verbatim>\<open>this.tools\<close> is a JavaScript \<^verbatim>\<open>Map\<close>: its entries in insertion order, one per key.
  Tool names are strings. \<open>emitted\<close> is the trace of \<^verbatim>\<open>this.emit(...)\<close> calls of the
  \<^verbatim>\<open>EventEmitter\<close> the class extends; the repository registers no listener on it.
\<close>

record server =
  tools :: "(string \<times> tool) list"
  resources :: "(string \<times> jsval) list"
  prompts :: "(string \<times> jsval) list"
  clientCapabilities :: jsval
  emitted :: "string list"

definition MCPServer_new :: server where
  "MCPServer_new =
     \<lparr>tools = [], resources = [], prompts = [], clientCapabilities = JNull, emitted = []\<rparr>"

text \<open>
  \<^verbatim>\<open>Map.prototype.set\<close>: a key already present keeps its place and gets the new value, a
  new key goes to the end. \<^verbatim>\<open>Map.prototype.get\<close> compares without coercion, so a name that
  is not a string finds nothing in a registry keyed by strings.
\<close>

fun Map_set :: "string \<Rightarrow> 'v \<Rightarrow> (string \<times> 'v) list \<Rightarrow> (string \<times> 'v) list" where
  "Map_set k v [] = [(k, v)]"
| "Map_set k v ((k', v') # kvs) =
     (if k' = k then (k, v) # kvs else (k', v') # Map_set k v kvs)"

definition Map_get :: "(string \<times> 'v) list \<Rightarrow> jsval \<Rightarrow> 'v option" where
  "Map_get kvs key = (case key of JStr k \<Rightarrow> map_of kvs k | _ \<Rightarrow> None)"

definition addTool :: "string \<Rightarrow> jsval \<Rightarrow> jsval \<Rightarrow> handler_fn \<Rightarrow> server \<Rightarrow> server" where
  "addTool n d i h s =
     s\<lparr>tools := Map_set n \<lparr>name = n, description = d, inputSchema = i, handler = h\<rparr> (tools s)\<rparr>"

text \<open>A sequence of \<^verbatim>\<open>addTool\<close> calls, as the start-up wiring performs it.\<close>

type_synonym registration = "string \<times> jsval \<times> jsval \<times> handler_fn"

fun addTools :: "registration list \<Rightarrow> server \<Rightarrow> server" where
  "addTools [] s = s"
| "addTools ((n, d, i, h) # rs) s = addTools rs (addTool n d i h s)"

section \<open>Envelopes and method handlers\<close>

definition createErrorResponse :: "jsval \<Rightarrow> int \<Rightarrow> jsval \<Rightarrow> jsval" where
  "createErrorResponse ident code message =
     JObj [(''jsonrpc'', JStr ''2.0''),
           (''id'', ident),
           (''error'', JObj [(''code'', JNum code), (''message'', message)])]"

text \<open>
  \<^verbatim>\<open>handleInitialize\<close> is synchronous: it throws (\<open>Inl\<close>) when \<^verbatim>\<open>params.capabilities\<close>
  cannot be read, before the assignment, and returns the fixed result otherwise.
\<close>

definition handleInitialize :: "server \<Rightarrow> jsval \<Rightarrow> jsval \<Rightarrow> server \<times> (exn + jsval)" where
  "handleInitialize s params ident =
     (case getprop params ''capabilities'' of
        Inl e \<Rightarrow> (s, Inl e)
      | Inr caps \<Rightarrow>
          (s\<lparr>clientCapabilities := caps\<rparr>,
           Inr (JObj [(''jsonrpc'', JStr ''2.0''),
                      (''id'', ident),
                      (''result'', JObj
                         [(''protocolVersion'', JStr ''2024-11-05''),
                          (''capabilities'', JObj
                             [(''tools'', JObj [(''listChanged'', JBool False)]),
                              (''resources'', JObj [(''subscribe'', JBool False),
                                                    (''listChanged'', JBool False)]),
                              (''prompts'', JObj [(''listChanged'', JBool False)])]),
                          (''serverInfo'', JObj
                             [(''name'', JStr ''supabase-mcp-server''),
                              (''version'', JStr ''1.0.0'')])])])))"

definition handleInitialized :: "server \<Rightarrow> server \<times> jsval" where
  "handleInitialized s = (s\<lparr>emitted := emitted s @ [''initialized'']\<rparr>, JNull)"

definition handleToolsList :: "server \<Rightarrow> jsval \<Rightarrow> jsval" where
  "handleToolsList s ident =
     JObj [(''jsonrpc'', JStr ''2.0''),
           (''id'', ident),
           (''result'', JObj
              [(''tools'', JArr (map (\<lambda>t. JObj [(''name'', JStr (name t)),
                                                  (''description'', description t),
                                                  (''inputSchema'', inputSchema t)])
                                      (map snd (tools s))))])]"

text \<open>
  \<^verbatim>\<open>handleToolCall\<close> is \<^verbatim>\<open>async\<close>: whatever it throws rejects the promise it returns
  (\<open>Inl\<close>), and a returned value fulfils it (\<open>Inr\<close>). Destructuring \<^verbatim>\<open>params\<close> throws on
  \<open>undefined\<close> and \<open>null\<close>. The inner \<^verbatim>\<open>try\<close> covers the awaited handler call; its
  \<^verbatim>\<open>catch\<close> reads \<^verbatim>\<open>error.message\<close>, which throws again for a thrown \<open>undefined\<close> or
  \<open>null\<close>. Both template literals stand outside the inner \<^verbatim>\<open>try\<close>: a name or a message
  that does not convert rejects the promise.
\<close>

definition handleToolCall :: "platform \<Rightarrow> server \<Rightarrow> jsval \<Rightarrow> jsval \<Rightarrow> exn + jsval" where
  "handleToolCall P s params ident =
     (if nullish params then Inl (TypeError params ''name'')
      else
        let nm = js_prop params ''name''; args = js_prop params ''arguments'' in
        case Map_get (tools s) nm of
          None \<Rightarrow>
            (case to_string P nm of
               Inl e \<Rightarrow> Inl e
             | Inr text \<Rightarrow>
                 Inr (createErrorResponse ident (- 32602) (JStr (''Tool not found: '' @ text))))
        | Some t \<Rightarrow>
            (case handler t args of
               Inr result \<Rightarrow>
                 Inr (JObj [(''jsonrpc'', JStr ''2.0''),
                            (''id'', ident),
                            (''result'', JObj
                               [(''content'', JArr
                                   [JObj [(''type'', JStr ''text''),
                                          (''text'', stringify P result)]])])])
             | Inl error \<Rightarrow>
                 (case error_message P (Thrown error) of
                    Inl e \<Rightarrow> Inl e
                  | Inr m \<Rightarrow>
                      (case to_string P m of
                         Inl e \<Rightarrow> Inl e
                       | Inr text \<Rightarrow>
                           Inr (createErrorResponse ident (- 32603)
                                  (JStr (''Tool execution failed: '' @ text)))))))"

section \<open>Dispatch\<close>

text \<open>
  How the \<^verbatim>\<open>try\<close> block of \<^verbatim>\<open>handleMessage\<close> completes: by a synchronous throw, which
  the \<^verbatim>\<open>catch\<close> clause receives, or by \<^verbatim>\<open>return\<close> of a promise (a plain value being an
  already fulfilled one). A returned promise is not awaited inside the \<^verbatim>\<open>try\<close>: the
  promise of \<^verbatim>\<open>handleMessage\<close> adopts it, rejection included. The template literal of the
  \<^verbatim>\<open>default\<close> branch is evaluated inside the \<^verbatim>\<open>try\<close>, so a method that does not
  convert is a synchronous throw.
\<close>

datatype completion =
    Throws exn
  | Returns "exn + jsval"

definition handleMessage_try :: "platform \<Rightarrow> server \<Rightarrow> jsval \<Rightarrow> server \<times> completion" where
  "handleMessage_try P s message =
     (if nullish message then (s, Throws (TypeError message ''method''))
      else
        let method = js_prop message ''method'';
            params = js_prop message ''params'';
            ident = js_prop message ''id'' in
        if method = JStr ''initialize'' then
          (case handleInitialize s params ident of
             (s', Inl e) \<Rightarrow> (s', Throws e)
           | (s', Inr v) \<Rightarrow> (s', Returns (Inr v)))
        else if method = JStr ''tools/list'' then
          (s, Returns (Inr (handleToolsList s ident)))
        else if method = JStr ''tools/call'' then
          (s, Returns (handleToolCall P s params ident))
        else if method = JStr ''notifications/initialized'' then
          (case handleInitialized s of (s', v) \<Rightarrow> (s', Returns (Inr v)))
        else
          (case to_string P method of
             Inl e \<Rightarrow> (s, Throws e)
           | Inr text \<Rightarrow>
               (s, Returns (Inr (createErrorResponse ident (- 32601)
                                   (JStr (''Method not found: '' @ text)))))))"

text \<open>
  \<open>handleMessage P s message\<close> is the state after the call and the settled promise:
  \<open>Inr v\<close> when it fulfils with the envelope \<open>v\<close> (or \<open>null\<close>), \<open>Inl e\<close> when it rejects
  with \<open>e\<close>, which is then the caller's to catch. The \<^verbatim>\<open>catch\<close> clause evaluates
  \<^verbatim>\<open>message.id\<close> first, then \<^verbatim>\<open>error.message\<close>.
\<close>

definition handleMessage :: "platform \<Rightarrow> server \<Rightarrow> jsval \<Rightarrow> server \<times> (exn + jsval)" where
  "handleMessage P s message =
     (case handleMessage_try P s message of
        (s', Returns p) \<Rightarrow> (s', p)
      | (s', Throws error) \<Rightarrow>
          (case getprop message ''id'' of
             Inl e \<Rightarrow> (s', Inl e)
           | Inr mid \<Rightarrow>
               (case error_message P error of
                  Inl e \<Rightarrow> (s', Inl e)
                | Inr m \<Rightarrow> (s', Inr (createErrorResponse mid (- 32603) m)))))"

section \<open>Start-up wiring and registration order\<close>

text \<open>
  \<^verbatim>\<open>SupabaseTools.registerTools\<close> of \<^verbatim>\<open>src/supabase-tools.js\<close>: three \<^verbatim>\<open>addTool\<close>
  calls. The handlers are bound methods that talk to the backend; they are parameters here.
\<close>

definition supabase_query_schema :: jsval where
  "supabase_query_schema =
     JObj [(''type'', JStr ''object''),
           (''properties'', JObj
              [(''action'', JObj
                  [(''type'', JStr ''string''),
                   (''enum'', JArr [JStr ''select'', JStr ''insert'', JStr ''update'',
                                    JStr ''delete'']),
                   (''description'', JStr ''Type of operation to perform'')]),
               (''table'', JObj
                  [(''type'', JStr ''string''),
                   (''description'', JStr ''Table name in Supabase'')]),
               (''data'', JObj
                  [(''type'', JStr ''object''),
                   (''description'', JStr ''Data for insert/update operations'')]),
               (''filters'', JObj
                  [(''type'', JStr ''object''),
                   (''description'', JStr ''WHERE conditions for the query'')]),
               (''select'', JObj
                  [(''type'', JStr ''string''),
                   (''description'', JStr ''Columns to select (default: *)'')]),
               (''limit'', JObj
                  [(''type'', JStr ''number''),
                   (''description'', JStr ''Limit number of results'')]),
               (''orderBy'', JObj
                  [(''type'', JStr ''string''),
                   (''description'',
                    JStr (''Order by clause (e.g., '' @ [CHR 0x22] @ ''name.asc'' @
                          [CHR 0x22] @ '')''))])]),
           (''required'', JArr [JStr ''action'', JStr ''table''])]"

definition supabase_schema_schema :: jsval where
  "supabase_schema_schema =
     JObj [(''type'', JStr ''object''),
           (''properties'', JObj
              [(''operation'', JObj
                  [(''type'', JStr ''string''),
                   (''enum'', JArr [JStr ''list_tables'', JStr ''describe_table'',
                                    JStr ''table_stats'']),
                   (''description'', JStr ''Type of schema operation'')]),
               (''table'', JObj
                  [(''type'', JStr ''string''),
                   (''description'',
                    JStr ''Table name (required for describe_table and table_stats)'')])]),
           (''required'', JArr [JStr ''operation''])]"

definition supabase_modify_schema_schema :: jsval where
  "supabase_modify_schema_schema =
     JObj [(''type'', JStr ''object''),
           (''properties'', JObj
              [(''operation'', JObj
                  [(''type'', JStr ''string''),
                   (''enum'', JArr [JStr ''create_table'', JStr ''add_column'',
                                    JStr ''drop_column'', JStr ''drop_table'']),
                   (''description'', JStr ''Type of schema modification'')]),
               (''table'', JObj
                  [(''type'', JStr ''string''),
                   (''description'', JStr ''Table name'')]),
               (''column'', JObj
                  [(''type'', JStr ''string''),
                   (''description'', JStr ''Column name (for column operations)'')]),
               (''dataType'', JObj
                  [(''type'', JStr ''string''),
                   (''description'',
                    JStr ''Data type for add_column (text, integer, boolean, etc.)'')])]),
           (''required'', JArr [JStr ''operation'', JStr ''table''])]"

definition registerTools :: "handler_fn \<Rightarrow> handler_fn \<Rightarrow> handler_fn \<Rightarrow> server \<Rightarrow> server" where
  "registerTools executeQuery querySchema modifySchema mcpServer =
     addTool ''supabase_modify_schema'' (JStr ''Modify database structure (REAL modifications)'')
       supabase_modify_schema_schema modifySchema
       (addTool ''supabase_schema'' (JStr ''Query database schema information'')
          supabase_schema_schema querySchema
          (addTool ''supabase_query'' (JStr ''Execute CRUD operations on Supabase'')
             supabase_query_schema executeQuery mcpServer))"

text \<open>
  Registration order, as the specification words it: the names in the order in which each
  was registered first. \<open>named_by_key\<close> says that every descriptor in the registry carries
  the name it is stored under; \<open>keys\<close> are the property names of an object.
\<close>

fun first_occurrences :: "string list \<Rightarrow> string list" where
  "first_occurrences [] = []"
| "first_occurrences (x # xs) = x # filter (\<lambda>y. y \<noteq> x) (first_occurrences xs)"

definition named_by_key :: "(string \<times> tool) list \<Rightarrow> bool" where
  "named_by_key kvs = list_all (\<lambda>kv. name (snd kv) = fst kv) kvs"

definition keys :: "jsval \<Rightarrow> string list" where
  "keys v = (case v of JObj kvs \<Rightarrow> map fst kvs | _ \<Rightarrow> [])"

section \<open>Reading properties and converting to strings\<close>

lemma js_prop_JObj [simp]:
  "js_prop (JObj kvs) k = (case map_of kvs k of Some x \<Rightarrow> x | None \<Rightarrow> JUndefined)"
  by (simp add: js_prop_def)

lemma js_prop_JUndefined [simp]: "js_prop JUndefined k = JUndefined"
  by (simp add: js_prop_def)

lemma js_prop_JNull [simp]: "js_prop JNull k = JUndefined"
  by (simp add: js_prop_def)

lemma js_prop_nullish [simp]: "nullish v \<Longrightarrow> js_prop v k = JUndefined"
  by (auto simp: js_prop_def nullish_def)

lemma js_prop_defined_not_nullish:
  "js_prop v k \<noteq> JUndefined \<Longrightarrow> \<not> nullish v"
  by (auto simp: js_prop_def nullish_def)

lemma to_string_JStr [simp]: "to_string P (JStr m) = Inr m"
  by (simp add: to_string_def)

lemma to_string_JUndefined [simp]: "to_string P JUndefined = Inr ''undefined''"
  by (simp add: to_string_def)

lemma to_string_convertible: "convertible v \<Longrightarrow> \<exists>str. to_string P v = Inr str"
  by (simp add: to_string_def)

lemma to_string_not_convertible:
  "\<not> convertible v \<Longrightarrow> to_string P v = Inl (TypeError_convert v)"
  by (simp add: to_string_def)

lemma to_string_Inr_convertible: "to_string P v = Inr str \<Longrightarrow> convertible v"
  by (simp add: to_string_def split: if_splits)

lemma Map_get_JStr [simp]: "Map_get kvs (JStr k) = map_of kvs k"
  by (simp add: Map_get_def)

lemma error_code_createErrorResponse [simp]:
  "js_prop (js_prop (createErrorResponse i c m) ''error'') ''code'' = JNum c"
  by (simp add: createErrorResponse_def)

section \<open>What each branch of the dispatch returns\<close>

text \<open>
  One lemma for each \<^verbatim>\<open>case\<close> of the \<^verbatim>\<open>switch\<close>. A message whose \<^verbatim>\<open>method\<close> reads as
  a string is an object, so destructuring it does not throw.
\<close>

lemma handleMessage_nullish:
  assumes "nullish message"
  shows "handleMessage P s message = (s, Inl (TypeError message ''id''))"
  using assms by (simp add: handleMessage_def handleMessage_try_def getprop_def)

lemma handleMessage_initialize:
  assumes "js_prop message ''method'' = JStr ''initialize''"
    and "\<not> nullish (js_prop message ''params'')"
  shows "handleMessage P s message =
           (case handleInitialize s (js_prop message ''params'') (js_prop message ''id'') of
              (s', r) \<Rightarrow> (s', r))"
proof -
  from assms(1) have "\<not> nullish message"
    by (intro js_prop_defined_not_nullish[of _ "''method''"]) simp
  with assms show ?thesis
    by (simp add: handleMessage_def handleMessage_try_def handleInitialize_def getprop_def)
qed

lemma handleMessage_initialize_throws:
  assumes "js_prop message ''method'' = JStr ''initialize''"
    and "nullish (js_prop message ''params'')"
  shows "handleMessage P s message =
           (s, Inr (createErrorResponse (js_prop message ''id'') (- 32603)
                      (JStr (typeErrorMessage P (js_prop message ''params'') ''capabilities''))))"
proof -
  from assms(1) have "\<not> nullish message"
    by (intro js_prop_defined_not_nullish[of _ "''method''"]) simp
  with assms show ?thesis
    by (simp add: handleMessage_def handleMessage_try_def handleInitialize_def getprop_def)
qed

lemma handleMessage_tools_list:
  assumes "js_prop message ''method'' = JStr ''tools/list''"
  shows "handleMessage P s message = (s, Inr (handleToolsList s (js_prop message ''id'')))"
proof -
  from assms(1) have "\<not> nullish message"
    by (intro js_prop_defined_not_nullish[of _ "''method''"]) simp
  with assms show ?thesis
    by (simp add: handleMessage_def handleMessage_try_def)
qed

lemma handleMessage_tools_call:
  assumes "js_prop message ''method'' = JStr ''tools/call''"
  shows "handleMessage P s message =
           (s, handleToolCall P s (js_prop message ''params'') (js_prop message ''id''))"
proof -
  from assms(1) have "\<not> nullish message"
    by (intro js_prop_defined_not_nullish[of _ "''method''"]) simp
  with assms show ?thesis
    by (simp add: handleMessage_def handleMessage_try_def)
qed

lemma handleMessage_tools_call_rejects:
  assumes "js_prop message ''method'' = JStr ''tools/call''"
    and "nullish (js_prop message ''params'')"
  shows "handleMessage P s message = (s, Inl (TypeError (js_prop message ''params'') ''name''))"
  using assms by (simp add: handleMessage_tools_call handleToolCall_def)

lemma handleMessage_initialized:
  assumes "js_prop message ''method'' = JStr ''notifications/initialized''"
  shows "handleMessage P s message = (s\<lparr>emitted := emitted s @ [''initialized'']\<rparr>, Inr JNull)"
proof -
  from assms(1) have "\<not> nullish message"
    by (intro js_prop_defined_not_nullish[of _ "''method''"]) simp
  with assms show ?thesis
    by (simp add: handleMessage_def handleMessage_try_def handleInitialized_def)
qed

lemma handleMessage_default:
  assumes "\<not> nullish message"
    and "js_prop message ''method'' \<noteq> JStr ''initialize''"
    and "js_prop message ''method'' \<noteq> JStr ''tools/list''"
    and "js_prop message ''method'' \<noteq> JStr ''tools/call''"
    and "js_prop message ''method'' \<noteq> JStr ''notifications/initialized''"
    and "to_string P (js_prop message ''method'') = Inr str"
  shows "handleMessage P s message =
           (s, Inr (createErrorResponse (js_prop message ''id'') (- 32601)
                      (JStr (''Method not found: '' @ str))))"
  using assms by (simp add: handleMessage_def handleMessage_try_def)

lemma handleMessage_default_throws:
  assumes "\<not> nullish message"
    and "js_prop message ''method'' \<noteq> JStr ''initialize''"
    and "js_prop message ''method'' \<noteq> JStr ''tools/list''"
    and "js_prop message ''method'' \<noteq> JStr ''tools/call''"
    and "js_prop message ''method'' \<noteq> JStr ''notifications/initialized''"
    and "\<not> convertible (js_prop message ''method'')"
  shows "handleMessage P s message =
           (s, Inr (createErrorResponse (js_prop message ''id'') (- 32603)
                      (JStr (convertErrorMessage P (js_prop message ''method'')))))"
  using assms
  by (simp add: handleMessage_def handleMessage_try_def to_string_not_convertible getprop_def)

text \<open>
  When \<^verbatim>\<open>handleToolCall\<close> fulfils, and what the envelopes it fulfils with look like.
\<close>

lemma handleToolCall_fulfils:
  assumes "\<not> nullish params"
    and "Map_get (tools s) (js_prop params ''name'') = None \<Longrightarrow>
           convertible (js_prop params ''name'')"
    and "\<And>t e. Map_get (tools s) (js_prop params ''name'') = Some t \<Longrightarrow>
                 handler t (js_prop params ''arguments'') = Inl e \<Longrightarrow>
                 \<not> nullish e \<and> convertible (js_prop e ''message'')"
  shows "\<exists>v. handleToolCall P s params ident = Inr v"
proof (cases "Map_get (tools s) (js_prop params ''name'')")
  case None
  with assms(2) obtain str where "to_string P (js_prop params ''name'') = Inr str"
    using to_string_convertible by blast
  with None assms(1) show ?thesis
    by (simp add: handleToolCall_def)
next
  case (Some t)
  show ?thesis
  proof (cases "handler t (js_prop params ''arguments'')")
    case (Inr result)
    with Some assms(1) show ?thesis
      by (simp add: handleToolCall_def)
  next
    case (Inl e)
    with Some assms(3) have "\<not> nullish e" "convertible (js_prop e ''message'')"
      by blast+
    moreover then obtain str where "to_string P (js_prop e ''message'') = Inr str"
      using to_string_convertible by blast
    ultimately show ?thesis
      using Some Inl assms(1) by (simp add: handleToolCall_def getprop_def)
  qed
qed

lemma handleToolCall_code_32602:
  assumes "handleToolCall P s params ident = Inr v"
    and "js_prop (js_prop v ''error'') ''code'' = JNum (- 32602)"
  shows "\<not> nullish params \<and> Map_get (tools s) (js_prop params ''name'') = None \<and>
         convertible (js_prop params ''name'')"
  using assms
  by (auto simp: handleToolCall_def Let_def dest: to_string_Inr_convertible
      split: if_splits option.splits sum.splits)

lemma handleToolCall_shape:
  assumes "handleToolCall P s params ident = Inr v"
  shows "js_prop v ''jsonrpc'' = JStr ''2.0'' \<and> js_prop v ''id'' = ident \<and>
         (keys v = [''jsonrpc'', ''id'', ''result''] \<or> keys v = [''jsonrpc'', ''id'', ''error''])"
  using assms
  by (auto simp: handleToolCall_def Let_def createErrorResponse_def keys_def
      split: if_splits option.splits sum.splits)

lemma handleMessage_fulfils_unless_tools_call:
  assumes "\<not> nullish message" and "js_prop message ''method'' \<noteq> JStr ''tools/call''"
  shows "\<exists>v. snd (handleMessage P s message) = Inr v"
proof -
  consider "js_prop message ''method'' = JStr ''initialize''"
    | "js_prop message ''method'' = JStr ''tools/list''"
    | "js_prop message ''method'' = JStr ''notifications/initialized''"
    | "js_prop message ''method'' \<noteq> JStr ''initialize''"
      "js_prop message ''method'' \<noteq> JStr ''tools/list''"
      "js_prop message ''method'' \<noteq> JStr ''notifications/initialized''"
    by blast
  then show ?thesis
  proof cases
    case 1
    then show ?thesis
      by (cases "nullish (js_prop message ''params'')")
         (auto simp: handleMessage_initialize handleMessage_initialize_throws
            handleInitialize_def getprop_def)
  next
    case 2
    then show ?thesis by (simp add: handleMessage_tools_list)
  next
    case 3
    then show ?thesis by (simp add: handleMessage_initialized)
  next
    case 4
    show ?thesis
    proof (cases "convertible (js_prop message ''method'')")
      case True
      then obtain str where "to_string P (js_prop message ''method'') = Inr str"
        using to_string_convertible by blast
      with 4 assms show ?thesis by (simp add: handleMessage_default)
    next
      case False
      with 4 assms show ?thesis by (simp add: handleMessage_default_throws)
    qed
  qed
qed

text \<open>
  Every envelope \<^verbatim>\<open>handleMessage\<close> fulfils with is tagged \<^verbatim>\<open>"2.0"\<close>, carries the \<^verbatim>\<open>id\<close>
  property as read from the message and has exactly one of \<^verbatim>\<open>result\<close> and \<^verbatim>\<open>error\<close>.
\<close>

lemma returned_envelope_shape:
  assumes "snd (handleMessage P s message) = Inr v" and "v \<noteq> JNull"
  shows "js_prop v ''jsonrpc'' = JStr ''2.0'' \<and> js_prop v ''id'' = js_prop message ''id'' \<and>
         (keys v = [''jsonrpc'', ''id'', ''result''] \<or> keys v = [''jsonrpc'', ''id'', ''error''])"
proof (cases "nullish message")
  case True
  with assms show ?thesis by (simp add: handleMessage_nullish)
next
  case False
  consider "js_prop message ''method'' = JStr ''initialize''"
    | "js_prop message ''method'' = JStr ''tools/list''"
    | "js_prop message ''method'' = JStr ''tools/call''"
    | "js_prop message ''method'' = JStr ''notifications/initialized''"
    | "js_prop message ''method'' \<noteq> JStr ''initialize''"
      "js_prop message ''method'' \<noteq> JStr ''tools/list''"
      "js_prop message ''method'' \<noteq> JStr ''tools/call''"
      "js_prop message ''method'' \<noteq> JStr ''notifications/initialized''"
    by blast
  then show ?thesis
  proof cases
    case 1
    with assms show ?thesis
      by (cases "nullish (js_prop message ''params'')")
         (auto simp: handleMessage_initialize handleMessage_initialize_throws
            handleInitialize_def getprop_def createErrorResponse_def keys_def)
  next
    case 2
    with assms show ?thesis
      by (auto simp: handleMessage_tools_list handleToolsList_def keys_def)
  next
    case 3
    with assms have "handleToolCall P s (js_prop message ''params'') (js_prop message ''id'') = Inr v"
      by (simp add: handleMessage_tools_call)
    then show ?thesis by (rule handleToolCall_shape)
  next
    case 4
    with assms show ?thesis by (simp add: handleMessage_initialized)
  next
    case 5
    note m = 5
    show ?thesis
    proof (cases "convertible (js_prop message ''method'')")
      case True
      then obtain str where "to_string P (js_prop message ''method'') = Inr str"
        using to_string_convertible by blast
      with m assms \<open>\<not> nullish message\<close> show ?thesis
        by (auto simp: handleMessage_default createErrorResponse_def keys_def)
    next
      case False
      with m assms \<open>\<not> nullish message\<close> show ?thesis
        by (auto simp: handleMessage_default_throws createErrorResponse_def keys_def)
    qed
  qed
qed

section \<open>The registry\<close>

text \<open>
  \<^verbatim>\<open>Map.prototype.set\<close> appends a new key and leaves the key order alone for a key already
  present; registrations on an empty registry therefore leave the keys in the order of their
  first registration, without repetition, each descriptor named by its key.
\<close>

lemma keys_Map_set_new:
  "k \<notin> set (map fst kvs) \<Longrightarrow> map fst (Map_set k v kvs) = map fst kvs @ [k]"
  by (induction kvs) auto

lemma keys_Map_set_old:
  "k \<in> set (map fst kvs) \<Longrightarrow> map fst (Map_set k v kvs) = map fst kvs"
  by (induction kvs) force+

lemma keys_Map_set:
  "map fst (Map_set k v kvs) = (if k \<in> set (map fst kvs) then map fst kvs else map fst kvs @ [k])"
  using keys_Map_set_new keys_Map_set_old by metis

lemma tools_addTool [simp]:
  "tools (addTool n d i h s) =
     Map_set n \<lparr>name = n, description = d, inputSchema = i, handler = h\<rparr> (tools s)"
  by (simp add: addTool_def)

lemma keys_addTools:
  "map fst (tools (addTools rs s)) =
     map fst (tools s) @
     filter (\<lambda>k. k \<notin> set (map fst (tools s))) (first_occurrences (map fst rs))"
proof (induction rs arbitrary: s)
  case Nil
  then show ?case by simp
next
  case (Cons r rs)
  obtain n d i h where r: "r = (n, d, i, h)" by (cases r) auto
  show ?case
  proof (cases "n \<in> set (map fst (tools s))")
    case True
    then have "filter (\<lambda>k. k \<notin> set (map fst (tools s)))
                 (filter (\<lambda>y. y \<noteq> n) (first_occurrences (map fst rs))) =
               filter (\<lambda>k. k \<notin> set (map fst (tools s))) (first_occurrences (map fst rs))"
      by (auto intro: filter_cong)
    with True show ?thesis
      by (simp add: r Cons.IH keys_Map_set)
  next
    case False
    have "filter (\<lambda>k. k \<notin> set (map fst (tools s)) \<and> k \<noteq> n) (first_occurrences (map fst rs)) =
          filter (\<lambda>k. k \<noteq> n \<and> k \<notin> set (map fst (tools s))) (first_occurrences (map fst rs))"
      by (auto intro: filter_cong)
    with False show ?thesis
      by (simp add: r Cons.IH keys_Map_set)
  qed
qed

lemma distinct_first_occurrences: "distinct (first_occurrences xs)"
  by (induction xs) auto

lemma set_first_occurrences: "set (first_occurrences xs) = set xs"
  by (induction xs) auto

lemma distinct_keys_addTools:
  "tools s0 = [] \<Longrightarrow> distinct (map fst (tools (addTools rs s0)))"
  by (simp add: keys_addTools distinct_first_occurrences)

lemma named_by_key_Map_set:
  "named_by_key kvs \<Longrightarrow> name t = k \<Longrightarrow> named_by_key (Map_set k t kvs)"
  by (induction kvs) (auto simp: named_by_key_def)

lemma named_by_key_addTools:
  "named_by_key (tools s) \<Longrightarrow> named_by_key (tools (addTools rs s))"
proof (induction rs arbitrary: s)
  case Nil
  then show ?case by simp
next
  case (Cons r rs)
  obtain n d i h where r: "r = (n, d, i, h)" by (cases r) auto
  from Cons.prems have "named_by_key (tools (addTool n d i h s))"
    by (simp add: named_by_key_Map_set)
  then show ?case by (simp add: r Cons.IH)
qed

lemma listing_named_by_key:
  "named_by_key kvs \<Longrightarrow>
     map (\<lambda>t. JObj [(''name'', JStr (name t)), (''description'', description t),
                     (''inputSchema'', inputSchema t)]) (map snd kvs) =
     map (\<lambda>kv. JObj [(''name'', JStr (fst kv)),
                      (''description'', description (snd kv)),
                      (''inputSchema'', inputSchema (snd kv))]) kvs"
  by (induction kvs) (auto simp: named_by_key_def)

lemma Map_set_present:
  "distinct (map fst kvs) \<Longrightarrow> k \<in> set (map fst kvs) \<Longrightarrow>
     Map_set k v kvs = map (\<lambda>kv. if fst kv = k then (k, v) else kv) kvs"
proof (induction kvs)
  case Nil
  then show ?case by simp
next
  case (Cons a kvs)
  obtain k' v' where a: "a = (k', v')" by (cases a) auto
  show ?case
  proof (cases "k' = k")
    case True
    with Cons.prems a have "k \<notin> set (map fst kvs)" by simp
    then have "map (\<lambda>kv. if fst kv = k then (k, v) else kv) kvs = kvs"
      by (induction kvs) auto
    with True a show ?thesis by simp
  next
    case False
    with Cons a show ?thesis by simp
  qed
qed

lemma map_of_Map_set_same: "map_of (Map_set k v kvs) k = Some v"
  by (induction kvs) auto

lemma keys_replaced:
  "map fst (map (\<lambda>kv. if fst kv = n then (n, v) else kv) kvs) = map fst kvs"
  by (induction kvs) auto

lemma listing_replaced:
  "named_by_key kvs \<Longrightarrow>
     map (\<lambda>t. JObj [(''name'', JStr (name t)), (''description'', description t),
                     (''inputSchema'', inputSchema t)])
       (map snd (map (\<lambda>kv. if fst kv = n
                              then (n, \<lparr>name = n, description = d, inputSchema = i, handler = h\<rparr>)
                              else kv) kvs)) =
     map (\<lambda>kv. if fst kv = n
                then JObj [(''name'', JStr n), (''description'', d), (''inputSchema'', i)]
                else JObj [(''name'', JStr (fst kv)),
                           (''description'', description (snd kv)),
                           (''inputSchema'', inputSchema (snd kv))]) kvs"
  by (induction kvs) (auto simp: named_by_key_def)

lemma registerTools_addTools:
  "registerTools q sc m s =
     addTools [(''supabase_query'', JStr ''Execute CRUD operations on Supabase'',
                supabase_query_schema, q),
               (''supabase_schema'', JStr ''Query database schema information'',
                supabase_schema_schema, sc),
               (''supabase_modify_schema'', JStr ''Modify database structure (REAL modifications)'',
                supabase_modify_schema_schema, m)] s"
  by (simp add: registerTools_def)

lemma tools_registerTools:
  "tools (registerTools q sc m MCPServer_new) =
     [(''supabase_query'',
       \<lparr>name = ''supabase_query'', description = JStr ''Execute CRUD operations on Supabase'',
        inputSchema = supabase_query_schema, handler = q\<rparr>),
      (''supabase_schema'',
       \<lparr>name = ''supabase_schema'', description = JStr ''Query database schema information'',
        inputSchema = supabase_schema_schema, handler = sc\<rparr>),
      (''supabase_modify_schema'',
       \<lparr>name = ''supabase_modify_schema'',
        description = JStr ''Modify database structure (REAL modifications)'',
        inputSchema = supabase_modify_schema_schema, handler = m\<rparr>)]"
  by (simp add: registerTools_def addTool_def MCPServer_new_def)

text \<open>No message changes the registry.\<close>

lemma handleMessage_keeps_registry: "tools (fst (handleMessage P s message)) = tools s"
  by (auto simp: handleMessage_def handleMessage_try_def handleInitialize_def
      handleInitialized_def Let_def split: sum.splits prod.splits)

section \<open>The claims\<close>

subsection \<open>Failures at the dispatch boundary\<close>

text \<open>
  Claim C1, as the engine meets it. Let the message be neither \<open>undefined\<close> nor \<open>null\<close>
  and, when its method is \<^verbatim>\<open>tools/call\<close>, let its \<^verbatim>\<open>params\<close> be neither \<open>undefined\<close> nor
  \<open>null\<close>, the name of a tool that is not found convert to a string, and the tool handler
  not reject with \<open>undefined\<close>, with \<open>null\<close> or with a value whose \<^verbatim>\<open>message\<close> does not
  convert to a string. Then the promise of \<^verbatim>\<open>handleMessage\<close> fulfils: no exception reaches
  the caller. The failures raised inside the \<^verbatim>\<open>try\<close> block of \<^verbatim>\<open>handleMessage\<close> become an
  error envelope with code \<open>-32603\<close> whose \<^verbatim>\<open>id\<close> is the \<^verbatim>\<open>id\<close> property as read from the
  message (\<open>undefined\<close>, not \<open>null\<close>, when the message has none): these are
  \<^verbatim>\<open>initialize\<close> with \<^verbatim>\<open>params\<close> that are \<open>undefined\<close> or \<open>null\<close>, and an unrecognized
  method that does not convert to a string. A failure of the tool handler becomes an error
  envelope with code \<open>-32603\<close> and the same \<^verbatim>\<open>id\<close>. A message without a \<^verbatim>\<open>method\<close> field
  raises nothing: it takes the \<^verbatim>\<open>default\<close> branch and is answered with code \<open>-32601\<close>.
\<close>

theorem failures_become_envelopes:
  assumes "\<not> nullish message"
    and "js_prop message ''method'' = JStr ''tools/call'' \<longrightarrow>
           \<not> nullish (js_prop message ''params'') \<and>
           (Map_get (tools s) (js_prop (js_prop message ''params'') ''name'') = None \<longrightarrow>
              convertible (js_prop (js_prop message ''params'') ''name'')) \<and>
           (\<forall>t e. Map_get (tools s) (js_prop (js_prop message ''params'') ''name'') = Some t \<and>
                  handler t (js_prop (js_prop message ''params'') ''arguments'') = Inl e \<longrightarrow>
                  \<not> nullish e \<and> convertible (js_prop e ''message''))"
  shows "(\<exists>v. snd (handleMessage P s message) = Inr v) \<and>
         (js_prop message ''method'' = JStr ''initialize'' \<and>
          nullish (js_prop message ''params'') \<longrightarrow>
            handleMessage P s message =
              (s, Inr (JObj [(''jsonrpc'', JStr ''2.0''),
                             (''id'', js_prop message ''id''),
                             (''error'', JObj
                                [(''code'', JNum (- 32603)),
                                 (''message'',
                                  JStr (typeErrorMessage P (js_prop message ''params'')
                                          ''capabilities''))])]))) \<and>
         (js_prop message ''method'' \<notin>
            {JStr ''initialize'', JStr ''tools/list'', JStr ''tools/call'',
             JStr ''notifications/initialized''} \<and>
          \<not> convertible (js_prop message ''method'') \<longrightarrow>
            handleMessage P s message =
              (s, Inr (JObj [(''jsonrpc'', JStr ''2.0''),
                             (''id'', js_prop message ''id''),
                             (''error'', JObj
                                [(''code'', JNum (- 32603)),
                                 (''message'',
                                  JStr (convertErrorMessage P
                                          (js_prop message ''method'')))])]))) \<and>
         (\<forall>t e str. js_prop message ''method'' = JStr ''tools/call'' \<and>
                Map_get (tools s) (js_prop (js_prop message ''params'') ''name'') = Some t \<and>
                handler t (js_prop (js_prop message ''params'') ''arguments'') = Inl e \<and>
                to_string P (js_prop e ''message'') = Inr str \<longrightarrow>
            handleMessage P s message =
              (s, Inr (JObj [(''jsonrpc'', JStr ''2.0''),
                             (''id'', js_prop message ''id''),
                             (''error'', JObj
                                [(''code'', JNum (- 32603)),
                                 (''message'',
                                  JStr (''Tool execution failed: '' @ str))])]))) \<and>
         (js_prop message ''method'' = JUndefined \<longrightarrow>
            handleMessage P s message =
              (s, Inr (JObj [(''jsonrpc'', JStr ''2.0''),
                             (''id'', js_prop message ''id''),
                             (''error'', JObj
                                [(''code'', JNum (- 32601)),
                                 (''message'', JStr ''Method not found: undefined'')])])))"
proof (intro conjI impI allI)
  show "\<exists>v. snd (handleMessage P s message) = Inr v"
  proof (cases "js_prop message ''method'' = JStr ''tools/call''")
    case True
    with assms(2) have "\<exists>v. handleToolCall P s (js_prop message ''params'')
                               (js_prop message ''id'') = Inr v"
      by (intro handleToolCall_fulfils) blast+
    with True show ?thesis by (simp add: handleMessage_tools_call)
  next
    case False
    with assms(1) show ?thesis by (rule handleMessage_fulfils_unless_tools_call)
  qed
next
  assume "js_prop message ''method'' = JStr ''initialize'' \<and>
          nullish (js_prop message ''params'')"
  then show "handleMessage P s message =
              (s, Inr (JObj [(''jsonrpc'', JStr ''2.0''),
                             (''id'', js_prop message ''id''),
                             (''error'', JObj
                                [(''code'', JNum (- 32603)),
                                 (''message'',
                                  JStr (typeErrorMessage P (js_prop message ''params'')
                                          ''capabilities''))])]))"
    by (simp add: handleMessage_initialize_throws createErrorResponse_def)
next
  assume "js_prop message ''method'' \<notin>
            {JStr ''initialize'', JStr ''tools/list'', JStr ''tools/call'',
             JStr ''notifications/initialized''} \<and>
          \<not> convertible (js_prop message ''method'')"
  with assms(1) show "handleMessage P s message =
              (s, Inr (JObj [(''jsonrpc'', JStr ''2.0''),
                             (''id'', js_prop message ''id''),
                             (''error'', JObj
                                [(''code'', JNum (- 32603)),
                                 (''message'',
                                  JStr (convertErrorMessage P
                                          (js_prop message ''method'')))])]))"
    by (simp add: handleMessage_default_throws createErrorResponse_def)
next
  fix t e str
  assume a: "js_prop message ''method'' = JStr ''tools/call'' \<and>
                Map_get (tools s) (js_prop (js_prop message ''params'') ''name'') = Some t \<and>
                handler t (js_prop (js_prop message ''params'') ''arguments'') = Inl e \<and>
                to_string P (js_prop e ''message'') = Inr str"
  with assms(2) have "\<not> nullish (js_prop message ''params'')" "\<not> nullish e"
    by blast+
  with a show "handleMessage P s message =
              (s, Inr (JObj [(''jsonrpc'', JStr ''2.0''),
                             (''id'', js_prop message ''id''),
                             (''error'', JObj
                                [(''code'', JNum (- 32603)),
                                 (''message'',
                                  JStr (''Tool execution failed: '' @ str))])]))"
    by (simp add: handleMessage_tools_call handleToolCall_def getprop_def
        createErrorResponse_def)
next
  assume "js_prop message ''method'' = JUndefined"
  with assms(1) show "handleMessage P s message =
              (s, Inr (JObj [(''jsonrpc'', JStr ''2.0''),
                             (''id'', js_prop message ''id''),
                             (''error'', JObj
                                [(''code'', JNum (- 32601)),
                                 (''message'', JStr ''Method not found: undefined'')])]))"
    by (simp add: handleMessage_default createErrorResponse_def)
qed

theorem failures_become_envelopes_witness:
  "snd (handleMessage node_platform MCPServer_new
          (JObj [(''jsonrpc'', JStr ''2.0''), (''id'', JNum 2), (''method'', JStr ''initialize'')])) =
     Inr (JObj [(''jsonrpc'', JStr ''2.0''),
                (''id'', JNum 2),
                (''error'', JObj
                   [(''code'', JNum (- 32603)),
                    (''message'',
                     JStr (''Cannot read properties of undefined (reading '' @ [CHR 0x27] @
                           ''capabilities'' @ [CHR 0x27] @ '')''))])]) \<and>
   snd (handleMessage node_platform
          (registerTools (\<lambda>a. Inl (JStr ''offline'')) (\<lambda>a. Inr a) (\<lambda>a. Inr a) MCPServer_new)
          (JObj [(''jsonrpc'', JStr ''2.0''), (''id'', JStr ''q-1''),
                 (''method'', JStr ''tools/call''),
                 (''params'', JObj [(''name'', JStr ''supabase_query'')])])) =
     Inr (JObj [(''jsonrpc'', JStr ''2.0''),
                (''id'', JStr ''q-1''),
                (''error'', JObj
                   [(''code'', JNum (- 32603)),
                    (''message'', JStr ''Tool execution failed: undefined'')])]) \<and>
   snd (handleMessage node_platform MCPServer_new
          (JObj [(''jsonrpc'', JStr ''2.0''), (''id'', JNum 11),
                 (''method'', JObj [(''toString'', JNum 1)])])) =
     Inr (JObj [(''jsonrpc'', JStr ''2.0''),
                (''id'', JNum 11),
                (''error'', JObj
                   [(''code'', JNum (- 32603)),
                    (''message'', JStr ''Cannot convert object to primitive value'')])])"
proof -
  let ?m1 = "JObj [(''jsonrpc'', JStr ''2.0''), (''id'', JNum 2), (''method'', JStr ''initialize'')]"
  let ?s2 = "registerTools (\<lambda>a. Inl (JStr ''offline'')) (\<lambda>a. Inr a) (\<lambda>a. Inr a) MCPServer_new"
  let ?m2 = "JObj [(''jsonrpc'', JStr ''2.0''), (''id'', JStr ''q-1''),
                   (''method'', JStr ''tools/call''),
                   (''params'', JObj [(''name'', JStr ''supabase_query'')])]"
  let ?m3 = "JObj [(''jsonrpc'', JStr ''2.0''), (''id'', JNum 11),
                   (''method'', JObj [(''toString'', JNum 1)])]"
  have a1: "\<not> nullish ?m1" and a2: "\<not> nullish ?m2" and a3: "\<not> nullish ?m3"
    by (simp_all add: nullish_def)
  have b1: "js_prop ?m1 ''method'' = JStr ''tools/call'' \<longrightarrow>
           \<not> nullish (js_prop ?m1 ''params'') \<and>
           (Map_get (tools MCPServer_new) (js_prop (js_prop ?m1 ''params'') ''name'') = None \<longrightarrow>
              convertible (js_prop (js_prop ?m1 ''params'') ''name'')) \<and>
           (\<forall>t e. Map_get (tools MCPServer_new) (js_prop (js_prop ?m1 ''params'') ''name'') = Some t \<and>
                  handler t (js_prop (js_prop ?m1 ''params'') ''arguments'') = Inl e \<longrightarrow>
                  \<not> nullish e \<and> convertible (js_prop e ''message''))"
    by simp
  have b2: "js_prop ?m2 ''method'' = JStr ''tools/call'' \<longrightarrow>
           \<not> nullish (js_prop ?m2 ''params'') \<and>
           (Map_get (tools ?s2) (js_prop (js_prop ?m2 ''params'') ''name'') = None \<longrightarrow>
              convertible (js_prop (js_prop ?m2 ''params'') ''name'')) \<and>
           (\<forall>t e. Map_get (tools ?s2) (js_prop (js_prop ?m2 ''params'') ''name'') = Some t \<and>
                  handler t (js_prop (js_prop ?m2 ''params'') ''arguments'') = Inl e \<longrightarrow>
                  \<not> nullish e \<and> convertible (js_prop e ''message''))"
    by (auto simp: tools_registerTools nullish_def js_prop_def)
  have b3: "js_prop ?m3 ''method'' = JStr ''tools/call'' \<longrightarrow>
           \<not> nullish (js_prop ?m3 ''params'') \<and>
           (Map_get (tools MCPServer_new) (js_prop (js_prop ?m3 ''params'') ''name'') = None \<longrightarrow>
              convertible (js_prop (js_prop ?m3 ''params'') ''name'')) \<and>
           (\<forall>t e. Map_get (tools MCPServer_new) (js_prop (js_prop ?m3 ''params'') ''name'') = Some t \<and>
                  handler t (js_prop (js_prop ?m3 ''params'') ''arguments'') = Inl e \<longrightarrow>
                  \<not> nullish e \<and> convertible (js_prop e ''message''))"
    by simp
  note T1 = failures_become_envelopes[OF a1 b1, where P = node_platform]
  note T2 = failures_become_envelopes[OF a2 b2, where P = node_platform]
  note T3 = failures_become_envelopes[OF a3 b3, where P = node_platform]
  have pre1: "js_prop ?m1 ''method'' = JStr ''initialize'' \<and> nullish (js_prop ?m1 ''params'')"
    by (simp add: nullish_def)
  have pre3: "js_prop ?m3 ''method'' \<notin>
            {JStr ''initialize'', JStr ''tools/list'', JStr ''tools/call'',
             JStr ''notifications/initialized''} \<and>
          \<not> convertible (js_prop ?m3 ''method'')"
    by simp
  have pre2: "js_prop ?m2 ''method'' = JStr ''tools/call'' \<and>
        Map_get (tools ?s2) (js_prop (js_prop ?m2 ''params'') ''name'') =
          Some \<lparr>name = ''supabase_query'',
                description = JStr ''Execute CRUD operations on Supabase'',
                inputSchema = supabase_query_schema,
                handler = (\<lambda>a. Inl (JStr ''offline''))\<rparr> \<and>
        handler \<lparr>name = ''supabase_query'',
                description = JStr ''Execute CRUD operations on Supabase'',
                inputSchema = supabase_query_schema,
                handler = (\<lambda>a. Inl (JStr ''offline''))\<rparr>
          (js_prop (js_prop ?m2 ''params'') ''arguments'') = Inl (JStr ''offline'') \<and>
        to_string node_platform (js_prop (JStr ''offline'') ''message'') = Inr ''undefined''"
    by (simp add: tools_registerTools js_prop_def)
  from T1[THEN conjunct2, THEN conjunct1, THEN mp, OF pre1]
  have r1: "snd (handleMessage node_platform MCPServer_new ?m1) =
          Inr (JObj [(''jsonrpc'', JStr ''2.0''),
                (''id'', JNum 2),
                (''error'', JObj
                   [(''code'', JNum (- 32603)),
                    (''message'',
                     JStr (''Cannot read properties of undefined (reading '' @ [CHR 0x27] @
                           ''capabilities'' @ [CHR 0x27] @ '')''))])])"
    by (simp add: node_platform_def V8_read_error_def)
  from T2[THEN conjunct2, THEN conjunct2, THEN conjunct2, THEN conjunct1, THEN spec, THEN spec,
      THEN spec, THEN mp, OF pre2]
  have r2: "snd (handleMessage node_platform ?s2 ?m2) =
          Inr (JObj [(''jsonrpc'', JStr ''2.0''),
                (''id'', JStr ''q-1''),
                (''error'', JObj
                   [(''code'', JNum (- 32603)),
                    (''message'', JStr ''Tool execution failed: undefined'')])])"
    by simp
  from T3[THEN conjunct2, THEN conjunct2, THEN conjunct1, THEN mp, OF pre3]
  have r3: "snd (handleMessage node_platform MCPServer_new ?m3) =
          Inr (JObj [(''jsonrpc'', JStr ''2.0''),
                (''id'', JNum 11),
                (''error'', JObj
                   [(''code'', JNum (- 32603)),
                    (''message'', JStr ''Cannot convert object to primitive value'')])])"
    by (simp add: node_platform_def)
  from r1 r2 r3 show ?thesis by simp
qed

text \<open>
  As claim C1 is worded, a message without a \<^verbatim>\<open>method\<close> field would be answered with code
  \<open>-32603\<close>, and an error envelope for a message without an \<^verbatim>\<open>id\<close> would carry
  \<open>null\<close>. The engine answers the first with \<open>-32601\<close> and echoes \<open>undefined\<close> in the
  second.
\<close>

theorem missing_method_counterexample:
  "snd (handleMessage node_platform MCPServer_new
          (JObj [(''jsonrpc'', JStr ''2.0''), (''id'', JNum 3)])) =
     Inr (JObj [(''jsonrpc'', JStr ''2.0''),
                (''id'', JNum 3),
                (''error'', JObj
                   [(''code'', JNum (- 32601)),
                    (''message'', JStr ''Method not found: undefined'')])]) \<and>
   snd (handleMessage node_platform MCPServer_new
          (JObj [(''jsonrpc'', JStr ''2.0''), (''method'', JStr ''initialize'')])) =
     Inr (JObj [(''jsonrpc'', JStr ''2.0''),
                (''id'', JUndefined),
                (''error'', JObj
                   [(''code'', JNum (- 32603)),
                    (''message'',
                     JStr (''Cannot read properties of undefined (reading '' @ [CHR 0x27] @
                           ''capabilities'' @ [CHR 0x27] @ '')''))])])"
  by (simp add: handleMessage_def handleMessage_try_def handleInitialize_def getprop_def
      nullish_def createErrorResponse_def node_platform_def V8_read_error_def)

subsection \<open>One envelope for every request\<close>

text \<open>
  Claim C2: every envelope returned is tagged, carries the id and has exactly one of
  \<^verbatim>\<open>result\<close> and \<^verbatim>\<open>error\<close> (this much is \<open>returned_envelope_shape\<close>), and every request
  that expects a response receives exactly one envelope. The engine does not meet the last
  part. \<^verbatim>\<open>handleToolCall\<close> is \<^verbatim>\<open>async\<close> and \<^verbatim>\<open>handleMessage\<close> returns its promise from
  inside the \<^verbatim>\<open>try\<close> block without \<^verbatim>\<open>await\<close>, so the \<^verbatim>\<open>catch\<close> clause never sees a
  rejection: for a \<^verbatim>\<open>tools/call\<close> request without \<^verbatim>\<open>params\<close> the \<^verbatim>\<open>TypeError\<close> of the
  destructuring rejects the promise of \<^verbatim>\<open>handleMessage\<close> and no envelope is returned.
\<close>

theorem tools_call_without_params_rejects:
  "handleMessage node_platform
     (registerTools (\<lambda>a. Inr a) (\<lambda>a. Inr a) (\<lambda>a. Inr a) MCPServer_new)
     (JObj [(''jsonrpc'', JStr ''2.0''), (''id'', JNum 1), (''method'', JStr ''tools/call'')]) =
     (registerTools (\<lambda>a. Inr a) (\<lambda>a. Inr a) (\<lambda>a. Inr a) MCPServer_new,
      Inl (TypeError JUndefined ''name''))"
  by (simp add: handleMessage_def handleMessage_try_def handleToolCall_def nullish_def)

subsection \<open>Unknown tools\<close>

text \<open>
  Claim C3, as the engine meets it. A \<^verbatim>\<open>tools/call\<close> request whose \<^verbatim>\<open>params\<close> are neither
  \<open>undefined\<close> nor \<open>null\<close> and whose \<^verbatim>\<open>params.name\<close> is not a key of the registry and
  converts to a string (a string never registered, and equally a missing name, a number or
  a boolean) is answered with an error envelope of code \<open>-32602\<close> carrying the message's
  \<^verbatim>\<open>id\<close> and the text \<^verbatim>\<open>Tool not found: \<close> followed by the name as converted; and an
  envelope with code \<open>-32602\<close> is returned only from this failed lookup.
\<close>

theorem tool_not_found:
  "(js_prop message ''method'' = JStr ''tools/call'' \<and>
    \<not> nullish (js_prop message ''params'') \<and>
    Map_get (tools s) (js_prop (js_prop message ''params'') ''name'') = None \<and>
    to_string P (js_prop (js_prop message ''params'') ''name'') = Inr str \<longrightarrow>
      handleMessage P s message =
        (s, Inr (JObj [(''jsonrpc'', JStr ''2.0''),
                       (''id'', js_prop message ''id''),
                       (''error'', JObj
                          [(''code'', JNum (- 32602)),
                           (''message'', JStr (''Tool not found: '' @ str))])])))
   \<and>
   (snd (handleMessage P s message) = Inr v \<and>
    js_prop (js_prop v ''error'') ''code'' = JNum (- 32602) \<longrightarrow>
      js_prop message ''method'' = JStr ''tools/call'' \<and>
      \<not> nullish (js_prop message ''params'') \<and>
      Map_get (tools s) (js_prop (js_prop message ''params'') ''name'') = None \<and>
      convertible (js_prop (js_prop message ''params'') ''name''))"
proof (rule conjI; rule impI)
  assume "js_prop message ''method'' = JStr ''tools/call'' \<and>
    \<not> nullish (js_prop message ''params'') \<and>
    Map_get (tools s) (js_prop (js_prop message ''params'') ''name'') = None \<and>
    to_string P (js_prop (js_prop message ''params'') ''name'') = Inr str"
  then show "handleMessage P s message =
        (s, Inr (JObj [(''jsonrpc'', JStr ''2.0''),
                       (''id'', js_prop message ''id''),
                       (''error'', JObj
                          [(''code'', JNum (- 32602)),
                           (''message'', JStr (''Tool not found: '' @ str))])]))"
    by (simp add: handleMessage_tools_call handleToolCall_def createErrorResponse_def)
next
  assume a: "snd (handleMessage P s message) = Inr v \<and>
    js_prop (js_prop v ''error'') ''code'' = JNum (- 32602)"
  have call: "js_prop message ''method'' = JStr ''tools/call''"
  proof (rule ccontr)
    assume n: "js_prop message ''method'' \<noteq> JStr ''tools/call''"
    show False
    proof (cases "nullish message")
      case True
      with a show False by (simp add: handleMessage_nullish)
    next
      case False
      consider "js_prop message ''method'' = JStr ''initialize''"
        | "js_prop message ''method'' = JStr ''tools/list''"
        | "js_prop message ''method'' = JStr ''notifications/initialized''"
        | "js_prop message ''method'' \<noteq> JStr ''initialize''"
          "js_prop message ''method'' \<noteq> JStr ''tools/list''"
          "js_prop message ''method'' \<noteq> JStr ''notifications/initialized''"
        by blast
      then show False
      proof cases
        case 1
        with a show False
          by (cases "nullish (js_prop message ''params'')")
             (auto simp: handleMessage_initialize handleMessage_initialize_throws
                handleInitialize_def getprop_def)
      next
        case 2
        with a show False by (auto simp: handleMessage_tools_list handleToolsList_def)
      next
        case 3
        with a show False by (auto simp: handleMessage_initialized)
      next
        case 4
        show False
        proof (cases "convertible (js_prop message ''method'')")
          case True
          then obtain str' where "to_string P (js_prop message ''method'') = Inr str'"
            using to_string_convertible by blast
          with 4 a n False show False by (auto simp: handleMessage_default)
        next
          case nc: False
          with 4 a n False show False by (auto simp: handleMessage_default_throws)
        qed
      qed
    qed
  qed
  with a have "handleToolCall P s (js_prop message ''params'') (js_prop message ''id'') = Inr v"
    by (simp add: handleMessage_tools_call)
  with a call show "js_prop message ''method'' = JStr ''tools/call'' \<and>
      \<not> nullish (js_prop message ''params'') \<and>
      Map_get (tools s) (js_prop (js_prop message ''params'') ''name'') = None \<and>
      convertible (js_prop (js_prop message ''params'') ''name'')"
    using handleToolCall_code_32602 by blast
qed

theorem tool_not_found_witness:
  "snd (handleMessage node_platform
          (registerTools (\<lambda>a. Inr a) (\<lambda>a. Inr a) (\<lambda>a. Inr a) MCPServer_new)
          (JObj [(''jsonrpc'', JStr ''2.0''), (''id'', JNum 8), (''method'', JStr ''tools/call''),
                 (''params'', JObj [(''name'', JStr ''supabase_rpc''),
                                    (''arguments'', JObj [])])])) =
     Inr (JObj [(''jsonrpc'', JStr ''2.0''),
                (''id'', JNum 8),
                (''error'', JObj
                   [(''code'', JNum (- 32602)),
                    (''message'', JStr ''Tool not found: supabase_rpc'')])]) \<and>
   Map_get (tools (registerTools (\<lambda>a. Inr a) (\<lambda>a. Inr a) (\<lambda>a. Inr a) MCPServer_new))
     (JStr ''supabase_rpc'') = None"
proof -
  let ?s = "registerTools (\<lambda>a. Inr a) (\<lambda>a. Inr a) (\<lambda>a. Inr a) MCPServer_new"
  let ?m = "JObj [(''jsonrpc'', JStr ''2.0''), (''id'', JNum 8), (''method'', JStr ''tools/call''),
                 (''params'', JObj [(''name'', JStr ''supabase_rpc''),
                                    (''arguments'', JObj [])])]"
  let ?v = "JObj [(''jsonrpc'', JStr ''2.0''),
                (''id'', JNum 8),
                (''error'', JObj
                   [(''code'', JNum (- 32602)),
                    (''message'', JStr ''Tool not found: supabase_rpc'')])]"
  have pre: "js_prop ?m ''method'' = JStr ''tools/call'' \<and>
             \<not> nullish (js_prop ?m ''params'') \<and>
             Map_get (tools ?s) (js_prop (js_prop ?m ''params'') ''name'') = None \<and>
             to_string node_platform (js_prop (js_prop ?m ''params'') ''name'') =
               Inr ''supabase_rpc''"
    by (simp add: tools_registerTools nullish_def)
  note T = tool_not_found[where message = ?m and s = ?s and P = node_platform and v = ?v
      and str = "''supabase_rpc''"]
  from T[THEN conjunct1, THEN mp, OF pre]
  have fwd: "handleMessage node_platform ?s ?m = (?s, Inr ?v)"
    by simp
  have post: "snd (handleMessage node_platform ?s ?m) = Inr ?v \<and>
              js_prop (js_prop ?v ''error'') ''code'' = JNum (- 32602)"
    by (simp add: fwd)
  from T[THEN conjunct2, THEN mp, OF post]
  have "Map_get (tools ?s) (JStr ''supabase_rpc'') = None"
    by simp
  with fwd show ?thesis by simp
qed

text \<open>
  As claim C3 is worded, code \<open>-32602\<close> would never answer malformed params. Params
  without a \<^verbatim>\<open>name\<close> are answered with it: the lookup of \<open>undefined\<close> fails like any
  other.
\<close>

theorem missing_name_counterexample:
  "snd (handleMessage node_platform
          (registerTools (\<lambda>a. Inr a) (\<lambda>a. Inr a) (\<lambda>a. Inr a) MCPServer_new)
          (JObj [(''jsonrpc'', JStr ''2.0''), (''id'', JNum 7), (''method'', JStr ''tools/call''),
                 (''params'', JObj [(''arguments'', JObj [(''table'', JStr ''t'')])])])) =
     Inr (JObj [(''jsonrpc'', JStr ''2.0''),
                (''id'', JNum 7),
                (''error'', JObj
                   [(''code'', JNum (- 32602)),
                    (''message'', JStr ''Tool not found: undefined'')])])"
  by (simp add: handleMessage_def handleMessage_try_def handleToolCall_def nullish_def
      createErrorResponse_def Map_get_def)

subsection \<open>Tool calls\<close>

text \<open>
  Claim C4: a \<^verbatim>\<open>tools/call\<close> request that names a registered tool whose handler throws or
  rejects with a value whose \<^verbatim>\<open>message\<close> is the string \<open>m\<close> is answered with an error
  envelope of code \<open>-32603\<close> whose message is \<^verbatim>\<open>Tool execution failed: \<close> followed by
  \<open>m\<close>.
\<close>

theorem tool_failure_reported:
  assumes "js_prop message ''method'' = JStr ''tools/call''"
    and "js_prop (js_prop message ''params'') ''name'' = JStr n"
    and "map_of (tools s) n = Some t"
    and "handler t (js_prop (js_prop message ''params'') ''arguments'') = Inl e"
    and "js_prop e ''message'' = JStr m"
  shows "handleMessage P s message =
           (s, Inr (JObj [(''jsonrpc'', JStr ''2.0''),
                          (''id'', js_prop message ''id''),
                          (''error'', JObj
                             [(''code'', JNum (- 32603)),
                              (''message'', JStr (''Tool execution failed: '' @ m))])]))"
proof -
  have p: "\<not> nullish (js_prop message ''params'')"
    by (rule js_prop_defined_not_nullish[of _ "''name''"]) (simp add: assms(2))
  have e: "\<not> nullish e"
    by (rule js_prop_defined_not_nullish[of _ "''message''"]) (simp add: assms(5))
  show ?thesis
    using assms p e
    by (simp add: handleMessage_tools_call handleToolCall_def getprop_def
        createErrorResponse_def)
qed

theorem tool_failure_reported_witness:
  "snd (handleMessage node_platform
     (registerTools (\<lambda>a. Inr a) (\<lambda>a. Inr a)
        (\<lambda>a. Inl (JObj [(''message'', JStr ''Column name required for drop_column'')]))
        MCPServer_new)
     (JObj [(''jsonrpc'', JStr ''2.0''), (''id'', JNum 5), (''method'', JStr ''tools/call''),
            (''params'', JObj [(''name'', JStr ''supabase_modify_schema''),
                               (''arguments'', JObj [(''operation'', JStr ''drop_column''),
                                                     (''table'', JStr ''t'')])])])) =
     Inr (JObj [(''jsonrpc'', JStr ''2.0''),
                (''id'', JNum 5),
                (''error'', JObj
                   [(''code'', JNum (- 32603)),
                    (''message'',
                     JStr ''Tool execution failed: Column name required for drop_column'')])])"
  using tool_failure_reported
    [where message = "JObj [(''jsonrpc'', JStr ''2.0''), (''id'', JNum 5),
                            (''method'', JStr ''tools/call''),
                            (''params'', JObj [(''name'', JStr ''supabase_modify_schema''),
                                               (''arguments'',
                                                JObj [(''operation'', JStr ''drop_column''),
                                                      (''table'', JStr ''t'')])])]"
       and n = "''supabase_modify_schema''"
       and s = "registerTools (\<lambda>a. Inr a) (\<lambda>a. Inr a)
                  (\<lambda>a. Inl (JObj [(''message'', JStr ''Column name required for drop_column'')]))
                  MCPServer_new"
       and t = "\<lparr>name = ''supabase_modify_schema'',
                 description = JStr ''Modify database structure (REAL modifications)'',
                 inputSchema = supabase_modify_schema_schema,
                 handler = (\<lambda>a. Inl (JObj [(''message'',
                                              JStr ''Column name required for drop_column'')]))\<rparr>"
       and e = "JObj [(''message'', JStr ''Column name required for drop_column'')]"
       and m = "''Column name required for drop_column''"
       and P = node_platform]
  by (simp add: tools_registerTools)

text \<open>
  Claim C5: a \<^verbatim>\<open>tools/call\<close> request that names a registered tool whose handler returns
  \<open>v\<close> is answered with a result envelope whose \<^verbatim>\<open>content\<close> is an array of one item of
  type \<^verbatim>\<open>text\<close>, its text being \<^verbatim>\<open>JSON.stringify(v, null, 2)\<close>.
\<close>

theorem tool_result_as_text:
  assumes "js_prop message ''method'' = JStr ''tools/call''"
    and "js_prop (js_prop message ''params'') ''name'' = JStr n"
    and "map_of (tools s) n = Some t"
    and "handler t (js_prop (js_prop message ''params'') ''arguments'') = Inr v"
  shows "handleMessage P s message =
           (s, Inr (JObj [(''jsonrpc'', JStr ''2.0''),
                          (''id'', js_prop message ''id''),
                          (''result'', JObj
                             [(''content'', JArr
                                 [JObj [(''type'', JStr ''text''),
                                        (''text'', stringify P v)]])])]))"
proof -
  have p: "\<not> nullish (js_prop message ''params'')"
    by (rule js_prop_defined_not_nullish[of _ "''name''"]) (simp add: assms(2))
  show ?thesis
    using assms p by (simp add: handleMessage_tools_call handleToolCall_def)
qed

theorem tool_result_as_text_witness:
  "snd (handleMessage node_platform
     (registerTools (\<lambda>a. Inr a) (\<lambda>a. Inr a)
        (\<lambda>a. Inr (JObj [(''success'', JBool True), (''data'', a)]))
        MCPServer_new)
     (JObj [(''jsonrpc'', JStr ''2.0''), (''id'', JNum 6), (''method'', JStr ''tools/call''),
            (''params'', JObj [(''name'', JStr ''supabase_modify_schema''),
                               (''arguments'', JObj [(''table'', JStr ''t'')])])])) =
     Inr (JObj [(''jsonrpc'', JStr ''2.0''),
                (''id'', JNum 6),
                (''result'', JObj
                   [(''content'', JArr
                       [JObj [(''type'', JStr ''text''),
                              (''text'',
                               JStr (''{'' @ [CHR 0x0A] @
                                     ''  '' @ [CHR 0x22] @ ''success'' @ [CHR 0x22] @ '': true,'' @
                                     [CHR 0x0A] @
                                     ''  '' @ [CHR 0x22] @ ''data'' @ [CHR 0x22] @ '': {'' @
                                     [CHR 0x0A] @
                                     ''    '' @ [CHR 0x22] @ ''table'' @ [CHR 0x22] @ '': '' @
                                     [CHR 0x22] @ ''t'' @ [CHR 0x22] @ [CHR 0x0A] @
                                     ''  }'' @ [CHR 0x0A] @ ''}''))]])])])"
  using tool_result_as_text
    [where message = "JObj [(''jsonrpc'', JStr ''2.0''), (''id'', JNum 6),
                            (''method'', JStr ''tools/call''),
                            (''params'', JObj [(''name'', JStr ''supabase_modify_schema''),
                                               (''arguments'', JObj [(''table'', JStr ''t'')])])]"
       and n = "''supabase_modify_schema''"
       and s = "registerTools (\<lambda>a. Inr a) (\<lambda>a. Inr a)
                  (\<lambda>a. Inr (JObj [(''success'', JBool True), (''data'', a)]))
                  MCPServer_new"
       and t = "\<lparr>name = ''supabase_modify_schema'',
                 description = JStr ''Modify database structure (REAL modifications)'',
                 inputSchema = supabase_modify_schema_schema,
                 handler = (\<lambda>a. Inr (JObj [(''success'', JBool True), (''data'', a)]))\<rparr>"
       and v = "JObj [(''success'', JBool True), (''data'', JObj [(''table'', JStr ''t'')])]"
       and P = node_platform]
  by (simp add: tools_registerTools node_platform_def JSON_stringify_def QuoteJSONString_def
      quote_char_def)

subsection \<open>Listing the tools\<close>

text \<open>
  Claim C6: after any sequence of registrations on an empty registry, \<^verbatim>\<open>tools/list\<close>
  returns a result envelope with one entry for each key of the registry, in the order of the
  keys, which is the order of first registration; an entry has the properties \<^verbatim>\<open>name\<close>,
  \<^verbatim>\<open>description\<close> and \<^verbatim>\<open>inputSchema\<close> and no other, so the handler is not in it.
\<close>

theorem tools_list_in_registration_order:
  assumes "js_prop message ''method'' = JStr ''tools/list''"
    and "tools s0 = []"
    and "s = addTools rs s0"
  shows "handleMessage P s message =
           (s, Inr (JObj [(''jsonrpc'', JStr ''2.0''),
                          (''id'', js_prop message ''id''),
                          (''result'', JObj
                             [(''tools'', JArr
                                 (map (\<lambda>kv. JObj [(''name'', JStr (fst kv)),
                                                   (''description'', description (snd kv)),
                                                   (''inputSchema'', inputSchema (snd kv))])
                                      (tools s)))])])) \<and>
         map fst (tools s) = first_occurrences (map fst rs)"
proof -
  have "named_by_key (tools s0)"
    by (simp add: assms(2) named_by_key_def)
  then have nk: "named_by_key (tools s)"
    unfolding assms(3) by (rule named_by_key_addTools)
  have "map fst (tools s) = first_occurrences (map fst rs)"
    using assms(2,3) by (simp add: keys_addTools)
  moreover have "handleMessage P s message = (s, Inr (handleToolsList s (js_prop message ''id'')))"
    using assms(1) by (rule handleMessage_tools_list)
  ultimately show ?thesis
    using listing_named_by_key[OF nk]
    by (simp add: handleToolsList_def)
qed

theorem tools_list_in_registration_order_witness:
  "snd (handleMessage node_platform
          (registerTools (\<lambda>a. Inr a) (\<lambda>a. Inr a) (\<lambda>a. Inr a) MCPServer_new)
          (JObj [(''jsonrpc'', JStr ''2.0''), (''id'', JNum 9), (''method'', JStr ''tools/list'')])) =
     Inr (JObj [(''jsonrpc'', JStr ''2.0''),
                (''id'', JNum 9),
                (''result'', JObj
                   [(''tools'', JArr
                       [JObj [(''name'', JStr ''supabase_query''),
                              (''description'', JStr ''Execute CRUD operations on Supabase''),
                              (''inputSchema'', supabase_query_schema)],
                        JObj [(''name'', JStr ''supabase_schema''),
                              (''description'', JStr ''Query database schema information''),
                              (''inputSchema'', supabase_schema_schema)],
                        JObj [(''name'', JStr ''supabase_modify_schema''),
                              (''description'',
                               JStr ''Modify database structure (REAL modifications)''),
                              (''inputSchema'', supabase_modify_schema_schema)]])])]) \<and>
   map fst (tools (registerTools (\<lambda>a. Inr a) (\<lambda>a. Inr a) (\<lambda>a. Inr a) MCPServer_new)) =
     [''supabase_query'', ''supabase_schema'', ''supabase_modify_schema'']"
proof -
  let ?m = "JObj [(''jsonrpc'', JStr ''2.0''), (''id'', JNum 9), (''method'', JStr ''tools/list'')]"
  have a: "js_prop ?m ''method'' = JStr ''tools/list''" by simp
  have b: "tools MCPServer_new = []" by (simp add: MCPServer_new_def)
  from tools_list_in_registration_order[OF a b registerTools_addTools, where P = node_platform]
  show ?thesis
    by (simp add: tools_registerTools)
qed

text \<open>
  Claim C10: register \<open>n\<close>, then other tools, then \<open>n\<close> again with a new descriptor.
  The second registration of \<open>n\<close> leaves the order of the keys as it was, which is the
  order of first registration. The registry then holds the new descriptor under \<open>n\<close>, new
  handler included, in the place of the old one, and every other entry as it was; and
  \<^verbatim>\<open>tools/list\<close> returns the entries it returned before with the entry of \<open>n\<close> showing
  the new description and schema.
\<close>

theorem reregistration_keeps_position:
  assumes "js_prop message ''method'' = JStr ''tools/list''"
    and "tools s0 = []"
    and "s2 = addTools others (addTool n d i h (addTools rs s0))"
    and "s3 = addTool n d' i' h' s2"
  shows "map fst (tools s3) = map fst (tools s2) \<and>
         map fst (tools s2) = first_occurrences (map fst rs @ n # map fst others) \<and>
         map_of (tools s3) n =
           Some \<lparr>name = n, description = d', inputSchema = i', handler = h'\<rparr> \<and>
         tools s3 =
           map (\<lambda>kv. if fst kv = n
                      then (n, \<lparr>name = n, description = d', inputSchema = i', handler = h'\<rparr>)
                      else kv) (tools s2) \<and>
         handleMessage P s3 message =
           (s3, Inr (JObj [(''jsonrpc'', JStr ''2.0''),
                           (''id'', js_prop message ''id''),
                           (''result'', JObj
                              [(''tools'', JArr
                                  (map (\<lambda>kv. if fst kv = n
                                              then JObj [(''name'', JStr n),
                                                         (''description'', d'),
                                                         (''inputSchema'', i')]
                                              else JObj [(''name'', JStr (fst kv)),
                                                         (''description'', description (snd kv)),
                                                         (''inputSchema'', inputSchema (snd kv))])
                                       (tools s2)))])]))"
proof -
  have s2: "s2 = addTools (rs @ (n, d, i, h) # others) s0"
    unfolding assms(3) by (induction rs arbitrary: s0) auto
  have keys2: "map fst (tools s2) = first_occurrences (map fst rs @ n # map fst others)"
    using assms(2) by (simp add: s2 keys_addTools)
  have dist: "distinct (map fst (tools s2))"
    unfolding s2 using assms(2) by (rule distinct_keys_addTools)
  have mem: "n \<in> set (map fst (tools s2))"
    by (simp add: keys2 set_first_occurrences)
  have "named_by_key (tools s0)"
    by (simp add: assms(2) named_by_key_def)
  then have nk2: "named_by_key (tools s2)"
    unfolding s2 by (rule named_by_key_addTools)
  have t3: "tools s3 =
              map (\<lambda>kv. if fst kv = n
                         then (n, \<lparr>name = n, description = d', inputSchema = i', handler = h'\<rparr>)
                         else kv) (tools s2)"
    unfolding assms(4) tools_addTool using dist mem by (rule Map_set_present)
  have keys3: "map fst (tools s3) = map fst (tools s2)"
    unfolding t3 by (rule keys_replaced)
  have stored: "map_of (tools s3) n =
                  Some \<lparr>name = n, description = d', inputSchema = i', handler = h'\<rparr>"
    unfolding assms(4) tools_addTool by (rule map_of_Map_set_same)
  have "handleMessage P s3 message = (s3, Inr (handleToolsList s3 (js_prop message ''id'')))"
    using assms(1) by (rule handleMessage_tools_list)
  moreover have "map (\<lambda>t. JObj [(''name'', JStr (name t)), (''description'', description t),
                     (''inputSchema'', inputSchema t)]) (map snd (tools s3)) =
                 map (\<lambda>kv. if fst kv = n
                             then JObj [(''name'', JStr n), (''description'', d'),
                                        (''inputSchema'', i')]
                             else JObj [(''name'', JStr (fst kv)),
                                        (''description'', description (snd kv)),
                                        (''inputSchema'', inputSchema (snd kv))]) (tools s2)"
    unfolding t3 using nk2 by (rule listing_replaced)
  ultimately have "handleMessage P s3 message =
           (s3, Inr (JObj [(''jsonrpc'', JStr ''2.0''),
                           (''id'', js_prop message ''id''),
                           (''result'', JObj
                              [(''tools'', JArr
                                  (map (\<lambda>kv. if fst kv = n
                                              then JObj [(''name'', JStr n),
                                                         (''description'', d'),
                                                         (''inputSchema'', i')]
                                              else JObj [(''name'', JStr (fst kv)),
                                                         (''description'', description (snd kv)),
                                                         (''inputSchema'', inputSchema (snd kv))])
                                       (tools s2)))])]))"
    by (simp add: handleToolsList_def)
  with keys2 keys3 stored t3 show ?thesis
    by blast
qed

theorem reregistration_keeps_position_witness:
  "snd (handleMessage node_platform
          (addTool ''supabase_query'' (JStr ''Read-only queries'') JNull (\<lambda>a. Inr JNull)
             (registerTools (\<lambda>a. Inr a) (\<lambda>a. Inr a) (\<lambda>a. Inr a) MCPServer_new))
          (JObj [(''jsonrpc'', JStr ''2.0''), (''id'', JNum 10), (''method'', JStr ''tools/list'')])) =
     Inr (JObj [(''jsonrpc'', JStr ''2.0''),
                (''id'', JNum 10),
                (''result'', JObj
                   [(''tools'', JArr
                       [JObj [(''name'', JStr ''supabase_query''),
                              (''description'', JStr ''Read-only queries''),
                              (''inputSchema'', JNull)],
                        JObj [(''name'', JStr ''supabase_schema''),
                              (''description'', JStr ''Query database schema information''),
                              (''inputSchema'', supabase_schema_schema)],
                        JObj [(''name'', JStr ''supabase_modify_schema''),
                              (''description'',
                               JStr ''Modify database structure (REAL modifications)''),
                              (''inputSchema'', supabase_modify_schema_schema)]])])]) \<and>
   map_of (tools (addTool ''supabase_query'' (JStr ''Read-only queries'') JNull (\<lambda>a. Inr JNull)
                    (registerTools (\<lambda>a. Inr a) (\<lambda>a. Inr a) (\<lambda>a. Inr a) MCPServer_new)))
     ''supabase_query'' =
     Some \<lparr>name = ''supabase_query'', description = JStr ''Read-only queries'',
           inputSchema = JNull, handler = (\<lambda>a. Inr JNull)\<rparr>"
proof -
  let ?m = "JObj [(''jsonrpc'', JStr ''2.0''), (''id'', JNum 10), (''method'', JStr ''tools/list'')]"
  let ?s2 = "registerTools (\<lambda>a. Inr a) (\<lambda>a. Inr a) (\<lambda>a. Inr a) MCPServer_new"
  have a: "js_prop ?m ''method'' = JStr ''tools/list''" by simp
  have b: "tools MCPServer_new = []" by (simp add: MCPServer_new_def)
  have c: "?s2 = addTools [(''supabase_schema'', JStr ''Query database schema information'',
                            supabase_schema_schema, (\<lambda>a. Inr a)),
                           (''supabase_modify_schema'',
                            JStr ''Modify database structure (REAL modifications)'',
                            supabase_modify_schema_schema, (\<lambda>a. Inr a))]
                    (addTool ''supabase_query'' (JStr ''Execute CRUD operations on Supabase'')
                       supabase_query_schema (\<lambda>a. Inr a) (addTools [] MCPServer_new))"
    by (simp add: registerTools_def)
  note T = reregistration_keeps_position[OF a b c refl, where P = node_platform
      and d' = "JStr ''Read-only queries''" and i' = JNull and h' = "\<lambda>a. Inr JNull"]
  from T[THEN conjunct2, THEN conjunct2, THEN conjunct2, THEN conjunct2]
  have listed: "snd (handleMessage node_platform
          (addTool ''supabase_query'' (JStr ''Read-only queries'') JNull (\<lambda>a. Inr JNull) ?s2) ?m) =
     Inr (JObj [(''jsonrpc'', JStr ''2.0''),
                (''id'', JNum 10),
                (''result'', JObj
                   [(''tools'', JArr
                       [JObj [(''name'', JStr ''supabase_query''),
                              (''description'', JStr ''Read-only queries''),
                              (''inputSchema'', JNull)],
                        JObj [(''name'', JStr ''supabase_schema''),
                              (''description'', JStr ''Query database schema information''),
                              (''inputSchema'', supabase_schema_schema)],
                        JObj [(''name'', JStr ''supabase_modify_schema''),
                              (''description'',
                               JStr ''Modify database structure (REAL modifications)''),
                              (''inputSchema'', supabase_modify_schema_schema)]])])])"
    by (simp add: tools_registerTools)
  from T[THEN conjunct2, THEN conjunct2, THEN conjunct1] listed
  show ?thesis
    by simp
qed

subsection \<open>Handshake\<close>

text \<open>
  Claim C7: an \<^verbatim>\<open>initialize\<close> request whose \<^verbatim>\<open>params\<close> contain \<^verbatim>\<open>capabilities\<close> is
  answered with the fixed protocol version, capability set and server identity, none of
  which depends on the capabilities received; these are stored in \<^verbatim>\<open>clientCapabilities\<close>
  and do not appear in the result.
\<close>

theorem initialize_fixed_result:
  assumes "js_prop message ''method'' = JStr ''initialize''"
    and "js_prop message ''params'' = JObj ps"
    and "map_of ps ''capabilities'' = Some caps"
  shows "handleMessage P s message =
           (s\<lparr>clientCapabilities := caps\<rparr>,
            Inr (JObj [(''jsonrpc'', JStr ''2.0''),
                       (''id'', js_prop message ''id''),
                       (''result'', JObj
                          [(''protocolVersion'', JStr ''2024-11-05''),
                           (''capabilities'', JObj
                              [(''tools'', JObj [(''listChanged'', JBool False)]),
                               (''resources'', JObj [(''subscribe'', JBool False),
                                                     (''listChanged'', JBool False)]),
                               (''prompts'', JObj [(''listChanged'', JBool False)])]),
                           (''serverInfo'', JObj
                              [(''name'', JStr ''supabase-mcp-server''),
                               (''version'', JStr ''1.0.0'')])])]))"
proof -
  have "\<not> nullish (js_prop message ''params'')"
    by (simp add: assms(2) nullish_def)
  then show ?thesis
    using assms by (simp add: handleMessage_initialize handleInitialize_def getprop_def)
qed

theorem initialize_fixed_result_witness:
  "handleMessage node_platform MCPServer_new
     (JObj [(''jsonrpc'', JStr ''2.0''), (''id'', JNum 1), (''method'', JStr ''initialize''),
            (''params'', JObj [(''protocolVersion'', JStr ''2024-11-05''),
                               (''capabilities'', JObj [(''foo'', JBool True)])])]) =
     (MCPServer_new\<lparr>clientCapabilities := JObj [(''foo'', JBool True)]\<rparr>,
      Inr (JObj [(''jsonrpc'', JStr ''2.0''),
                 (''id'', JNum 1),
                 (''result'', JObj
                    [(''protocolVersion'', JStr ''2024-11-05''),
                     (''capabilities'', JObj
                        [(''tools'', JObj [(''listChanged'', JBool False)]),
                         (''resources'', JObj [(''subscribe'', JBool False),
                                               (''listChanged'', JBool False)]),
                         (''prompts'', JObj [(''listChanged'', JBool False)])]),
                     (''serverInfo'', JObj
                        [(''name'', JStr ''supabase-mcp-server''),
                         (''version'', JStr ''1.0.0'')])])]))"
  using initialize_fixed_result
    [where message = "JObj [(''jsonrpc'', JStr ''2.0''), (''id'', JNum 1),
                            (''method'', JStr ''initialize''),
                            (''params'', JObj [(''protocolVersion'', JStr ''2024-11-05''),
                                               (''capabilities'', JObj [(''foo'', JBool True)])])]"
       and ps = "[(''protocolVersion'', JStr ''2024-11-05''),
                  (''capabilities'', JObj [(''foo'', JBool True)])]"
       and caps = "JObj [(''foo'', JBool True)]"
       and P = node_platform and s = MCPServer_new]
  by simp

text \<open>
  Claim C9: for a \<^verbatim>\<open>notifications/initialized\<close> message \<^verbatim>\<open>handleMessage\<close> returns
  \<open>null\<close>, no envelope, and emits \<^verbatim>\<open>initialized\<close> once.
\<close>

theorem initialized_notification:
  assumes "js_prop message ''method'' = JStr ''notifications/initialized''"
  shows "handleMessage P s message = (s\<lparr>emitted := emitted s @ [''initialized'']\<rparr>, Inr JNull)"
  using assms by (rule handleMessage_initialized)

theorem initialized_notification_witness:
  "handleMessage node_platform MCPServer_new
     (JObj [(''jsonrpc'', JStr ''2.0''), (''method'', JStr ''notifications/initialized'')]) =
     (MCPServer_new\<lparr>emitted := [''initialized'']\<rparr>, Inr JNull)"
  using initialized_notification
    [where message = "JObj [(''jsonrpc'', JStr ''2.0''),
                            (''method'', JStr ''notifications/initialized'')]"
       and P = node_platform and s = MCPServer_new]
  by (simp add: MCPServer_new_def)

subsection \<open>Unknown methods\<close>

text \<open>
  Claim C8: a request whose \<^verbatim>\<open>method\<close> is none of \<^verbatim>\<open>initialize\<close>, \<^verbatim>\<open>tools/list\<close>,
  \<^verbatim>\<open>tools/call\<close> and \<^verbatim>\<open>notifications/initialized\<close> is answered with an error envelope of
  code \<open>-32601\<close> whose message is \<^verbatim>\<open>Method not found: \<close> followed by the method name. The
  name is what the template literal makes of the \<^verbatim>\<open>method\<close> field: for a string the string
  itself, and \<^verbatim>\<open>undefined\<close> for a message without the field. (What does not convert to a
  string is no method name; the \<^verbatim>\<open>catch\<close> clause answers it with \<open>-32603\<close>.)
\<close>

theorem method_not_found:
  assumes "\<not> nullish message"
    and "js_prop message ''method'' = m"
    and "m \<notin> {JStr ''initialize'', JStr ''tools/list'', JStr ''tools/call'',
               JStr ''notifications/initialized''}"
    and "to_string P m = Inr method_name"
  shows "handleMessage P s message =
           (s, Inr (JObj [(''jsonrpc'', JStr ''2.0''),
                          (''id'', js_prop message ''id''),
                          (''error'', JObj
                             [(''code'', JNum (- 32601)),
                              (''message'', JStr (''Method not found: '' @ method_name))])]))"
  using assms by (simp add: handleMessage_default createErrorResponse_def)

theorem method_not_found_witness:
  "\<not> nullish (JObj [(''jsonrpc'', JStr ''2.0''), (''id'', JNum 4),
                    (''method'', JStr ''resources/list'')]) \<and>
   to_string node_platform (JStr ''resources/list'') = Inr ''resources/list'' \<and>
   handleMessage node_platform MCPServer_new
     (JObj [(''jsonrpc'', JStr ''2.0''), (''id'', JNum 4), (''method'', JStr ''resources/list'')]) =
     (MCPServer_new,
      Inr (JObj [(''jsonrpc'', JStr ''2.0''),
                 (''id'', JNum 4),
                 (''error'', JObj
                    [(''code'', JNum (- 32601)),
                     (''message'', JStr ''Method not found: resources/list'')])]))"
  using method_not_found
    [where message = "JObj [(''jsonrpc'', JStr ''2.0''), (''id'', JNum 4),
                            (''method'', JStr ''resources/list'')]"
       and m = "JStr ''resources/list''" and method_name = "''resources/list''"
       and P = node_platform and s = MCPServer_new]
  by (simp add: nullish_def)

end
